theory Spec2Isabelle
  imports Main "HOL-Library.Sublist"
begin

section \<open>Python values shared by the modules\<close>

text \<open>
  A raised exception is a value: its class name and its message (what \<open>str(e)\<close> gives).
  A function that can raise returns \<open>exn + 'a\<close>, with \<open>Inl\<close> for the exception that
  leaves it. Only exceptions derived from \<open>Exception\<close> are modelled.
\<close>

datatype exn = Exn (exn_class: string) (exn_msg: string)

subsection \<open>String methods\<close>

text \<open>
  A Python string is given by the bytes of its UTF-8 encoding; a character of the string
  is a lead byte with the continuation bytes (\<open>10xxxxxx\<close>) that follow it. An ASCII
  string is its own encoding, one byte per character.
\<close>

definition is_cont :: "char \<Rightarrow> bool" where
  "is_cont c = (let n = (of_char c :: nat) in 128 \<le> n \<and> n < 192)"

text \<open>The characters of a string, each as its bytes.\<close>

fun utf8_chars :: "string \<Rightarrow> string list" where
  "utf8_chars [] = []"
| "utf8_chars (c # cs) =
     (case utf8_chars cs of
        [] \<Rightarrow> [[c]]
      | ch # chs \<Rightarrow>
          (case ch of
             [] \<Rightarrow> [c] # chs
           | d # ds \<Rightarrow> (if is_cont d then (c # ch) # chs else [c] # ch # chs)))"

text \<open>The code point that the bytes of one character encode; \<open>None\<close> for bytes that
  are not the encoding of a character.\<close>

definition code_point :: "string \<Rightarrow> nat option" where
  "code_point ch =
     (case map of_char ch of
        [a] \<Rightarrow> (if a < 128 then Some a else None)
      | [a, b] \<Rightarrow>
          (if 192 \<le> a \<and> a < 224 then Some ((a - 192) * 64 + (b - 128)) else None)
      | [a, b, c] \<Rightarrow>
          (if 224 \<le> a \<and> a < 240 then Some ((a - 224) * 4096 + (b - 128) * 64 + (c - 128))
           else None)
      | [a, b, c, d] \<Rightarrow>
          (if 240 \<le> a \<and> a < 248
           then Some ((a - 240) * 262144 + (b - 128) * 4096 + (c - 128) * 64 + (d - 128))
           else None)
      | _ \<Rightarrow> None)"

text \<open>
  \<open>str.isspace\<close> on a code point, the characters that \<open>str.strip()\<close> removes: tab to
  carriage return, the separators U+001C to U+001F, the space, U+0085, U+00A0, U+1680,
  U+2000 to U+200A, U+2028, U+2029, U+202F, U+205F and U+3000.
\<close>

definition isspace :: "nat \<Rightarrow> bool" where
  "isspace n =
     ((9 \<le> n \<and> n \<le> 13) \<or> (28 \<le> n \<and> n \<le> 32) \<or> n = 133 \<or> n = 160 \<or> n = 5760
      \<or> (8192 \<le> n \<and> n \<le> 8202) \<or> n = 8232 \<or> n = 8233 \<or> n = 8239 \<or> n = 8287
      \<or> n = 12288)"

text \<open>Whether one character, given by its bytes, is white space.\<close>

definition is_space :: "string \<Rightarrow> bool" where
  "is_space ch = (case code_point ch of None \<Rightarrow> False | Some n \<Rightarrow> isspace n)"

text \<open>\<open>s.strip()\<close>: the white space characters at both ends are removed.\<close>

definition strip :: "string \<Rightarrow> string" where
  "strip s = concat (rev (dropWhile is_space (rev (dropWhile is_space (utf8_chars s)))))"

text \<open>\<open>s.split(sep)\<close> for a one-character separator: the result is never empty,
  \<open>''''.split(',')\<close> is \<open>['''']\<close>.\<close>

fun split :: "char \<Rightarrow> string \<Rightarrow> string list" where
  "split sep [] = [[]]"
| "split sep (c # cs) =
     (if c = sep then [] # split sep cs
      else (case split sep cs of
              [] \<Rightarrow> [[c]]
            | x # xs \<Rightarrow> (c # x) # xs))"

text \<open>\<open>s.startswith(p)\<close> is \<^term>\<open>prefix p s\<close>.\<close>

text \<open>\<open>s.lower()\<close> on the ASCII letters; the other bytes are kept. It is applied to
  \<open>image.format\<close> only, to compare it with three ASCII names.\<close>

definition lower_char :: "char \<Rightarrow> char" where
  "lower_char c =
     (let n = (of_char c :: nat) in if 65 \<le> n \<and> n \<le> 90 then char_of (n + 32) else c)"

definition lower :: "string \<Rightarrow> string" where
  "lower s = map lower_char s"

section \<open>core/car\_search\_core.py\<close>

subsection \<open>search\_using\_text\_with\_fts\<close>

text \<open>
  The value stored under \<open>image_urls\<close> in a row of the result frame: a NumPy array or a
  pandas Series, a Python list, a single string, or \<open>None\<close>.
\<close>

datatype urls_val =
    UArray "string list"
  | UList "string list"
  | UStr string
  | UNone

text \<open>
  A row of the data frame that \<open>to_pandas()\<close> returns. A field is \<open>None\<close> when the
  frame has no such column: \<open>row[k]\<close> then raises KeyError and \<open>row.get(k, d)\<close> gives
  the default \<open>d\<close>.
\<close>

record df_row =
  row_label :: "string option"
  row_car_type :: "string option"
  row_fuel_type :: "string option"
  row_car_info :: "string option"
  row_image_urls :: "urls_val option"

text \<open>The dictionary appended to \<open>unique_results\<close>.\<close>

record car_dict =
  label :: string
  car_type :: string
  fuel_type :: string
  car_info :: string
  image_urls :: "string list"

text \<open>
  The table is an external store: what a search returns, or that it raises, is given by
  the table, as a function of the query type, the query and the cap handed to
  \<open>limit\<close>.
\<close>

datatype query_type = FTS | Vector

type_synonym search_call = "query_type \<times> string \<times> int"

type_synonym text_table = "query_type \<Rightarrow> string \<Rightarrow> int \<Rightarrow> exn + df_row list"

text \<open>Lines 156 to 161: the stored \<open>image_urls\<close> value as a list.\<close>

definition normalize_image_urls :: "urls_val option \<Rightarrow> string list" where
  "normalize_image_urls v =
     (case v of
        None \<Rightarrow> []
      | Some (UArray xs) \<Rightarrow> xs
      | Some (UList xs) \<Rightarrow> xs
      | Some (UStr s) \<Rightarrow> (if s \<noteq> [] then [s] else [])
      | Some UNone \<Rightarrow> [])"

text \<open>Lines 163 to 169: the dictionary built from a row; \<open>row["label"]\<close> and
  \<open>row["car_info"]\<close> raise KeyError when the column is missing.\<close>

definition row_result :: "df_row \<Rightarrow> exn + car_dict" where
  "row_result row =
     (case row_label row of
        None \<Rightarrow> Inl (Exn ''KeyError'' ''label'')
      | Some l \<Rightarrow>
          (case row_car_info row of
             None \<Rightarrow> Inl (Exn ''KeyError'' ''car_info'')
           | Some info \<Rightarrow>
               Inr \<lparr> label = l,
                     car_type = (case row_car_type row of None \<Rightarrow> [] | Some t \<Rightarrow> t),
                     fuel_type = (case row_fuel_type row of None \<Rightarrow> [] | Some t \<Rightarrow> t),
                     car_info = info,
                     image_urls = normalize_image_urls (row_image_urls row) \<rparr>))"

text \<open>Lines 151 to 169: the loop over \<open>results.iterrows()\<close>, with \<open>seen_labels\<close> and
  \<open>unique_results\<close> as they stand before the row.\<close>

fun unique_loop :: "df_row list \<Rightarrow> string set \<Rightarrow> car_dict list \<Rightarrow> exn + car_dict list" where
  "unique_loop [] seen_labels unique_results = Inr unique_results"
| "unique_loop (row # rows) seen_labels unique_results =
     (case row_label row of
        None \<Rightarrow> Inl (Exn ''KeyError'' ''label'')
      | Some l \<Rightarrow>
          (if l \<notin> seen_labels then
             (case row_result row of
                Inl e \<Rightarrow> Inl e
              | Inr d \<Rightarrow> unique_loop rows (insert l seen_labels) (unique_results @ [d]))
           else unique_loop rows seen_labels unique_results))"

text \<open>Lines 148 to 171: the deduplication step, started with nothing seen.\<close>

definition unique_results_of :: "df_row list \<Rightarrow> exn + car_dict list" where
  "unique_results_of results = unique_loop results {} []"

text \<open>Lines 144 to 171, after the result frame is chosen. \<open>results.empty\<close> is read as
  "the frame has no rows".\<close>

definition search_finish :: "df_row list \<Rightarrow> exn + car_dict list option" where
  "search_finish results =
     (if results = [] then Inr None
      else (case unique_results_of results of
              Inl e \<Rightarrow> Inl e
            | Inr u \<Rightarrow> Inr (Some u)))"

text \<open>Lines 136 to 171, the body of the \<open>try\<close>: the value or the exception, and
  the searches made on the table, in order. The \<open>print\<close> statements are left out.\<close>

definition search_try :: "text_table \<Rightarrow> string \<Rightarrow> int \<Rightarrow> (exn + car_dict list option) \<times> search_call list" where
  "search_try text_table query limit =
     (case text_table FTS query limit of
        Inl e \<Rightarrow> (Inl e, [(FTS, query, limit)])
      | Inr results \<Rightarrow>
          (if results = [] then
             (case text_table Vector query limit of
                Inl e \<Rightarrow> (Inl e, [(FTS, query, limit), (Vector, query, limit)])
              | Inr results' \<Rightarrow>
                  (search_finish results', [(FTS, query, limit), (Vector, query, limit)]))
           else (search_finish results, [(FTS, query, limit)])))"

text \<open>The function: \<open>except Exception\<close> turns every exception of the body into the
  value \<open>None\<close>.\<close>

definition search_using_text_with_fts ::
    "text_table \<Rightarrow> string \<Rightarrow> int \<Rightarrow> (exn + car_dict list option) \<times> search_call list" where
  "search_using_text_with_fts text_table query limit =
     (case search_try text_table query limit of
        (Inl e, calls) \<Rightarrow> (Inr None, calls)
      | (Inr r, calls) \<Rightarrow> (Inr r, calls))"

text \<open>A result dictionary read back as a frame row, to run the deduplication step on
  its own output.\<close>

definition result_row :: "car_dict \<Rightarrow> df_row" where
  "result_row d =
     \<lparr> row_label = Some (label d),
       row_car_type = Some (car_type d),
       row_fuel_type = Some (fuel_type d),
       row_car_info = Some (car_info d),
       row_image_urls = Some (UList (image_urls d)) \<rparr>"

text \<open>A table whose full-text search finds nothing and whose vector search raises.\<close>

definition failing_vector_table :: text_table where
  "failing_vector_table qt query limit =
     (case qt of
        FTS \<Rightarrow> Inr []
      | Vector \<Rightarrow> Inl (Exn ''RuntimeError'' ''vector search failed''))"

text \<open>A table whose full-text search finds nothing and whose vector search finds two rows
  of the same car.\<close>

definition swift_row :: df_row where
  "swift_row =
     \<lparr> row_label = Some ''Swift'',
       row_car_type = Some ''Hatchback'',
       row_fuel_type = Some ''Petrol'',
       row_car_info = Some ''Compact city car'',
       row_image_urls = Some (UArray [''http://x/a.jpg'']) \<rparr>"

definition vector_only_table :: text_table where
  "vector_only_table qt query limit =
     (case qt of
        FTS \<Rightarrow> Inr []
      | Vector \<Rightarrow> Inr [swift_row, swift_row])"

text \<open>The one result that the two rows of \<open>vector_only_table\<close> give.\<close>

definition swift_result :: car_dict where
  "swift_result =
     \<lparr> label = ''Swift'', car_type = ''Hatchback'', fuel_type = ''Petrol'',
       car_info = ''Compact city car'', image_urls = [''http://x/a.jpg''] \<rparr>"

subsection \<open>The outside world of the image functions\<close>

text \<open>An opened PIL image; only its \<open>format\<close> attribute is read by the program.\<close>

datatype pil_image = PilImage (img_format: string)

text \<open>
  A call of the \<open>requests\<close> library: the method, the URL and the \<open>timeout\<close> argument
  in seconds, \<open>None\<close> when the call passes none (the library then waits without limit).
\<close>

datatype net_call = Head string "nat option" | Get string "nat option"

text \<open>
  What the network, the file system and the image decoder answer. A request returns the
  status code (and for GET the content) or raises; the answer may depend on the timeout,
  and is the same each time the same request is made.
  \<open>image_open_bytes\<close> is \<open>Image.open(BytesIO(content))\<close>, \<open>image_open_path\<close> is
  \<open>Image.open(path)\<close>, \<open>read_file\<close> is \<open>open(path, "rb").read()\<close>, and
  \<open>image_verify\<close> is \<open>Image.open(io.BytesIO(img_bytes))\<close> followed by \<open>verify()\<close>,
  which gives the exception raised, if any. Byte strings are character lists.
\<close>

record world =
  http_head :: "string \<Rightarrow> nat option \<Rightarrow> exn + int"
  http_get :: "string \<Rightarrow> nat option \<Rightarrow> exn + (int \<times> string)"
  path_exists :: "string \<Rightarrow> bool"
  image_open_bytes :: "string \<Rightarrow> exn + pil_image"
  image_open_path :: "string \<Rightarrow> exn + pil_image"
  read_file :: "string \<Rightarrow> exn + string"
  image_verify :: "string \<Rightarrow> exn option"

subsection \<open>is\_valid\_image\_path and load\_image\_from\_url\_or\_path\<close>

text \<open>
  The argument \<open>url_or_path\<close>: \<open>None\<close>, a string, or one of the three collections the
  functions test for with \<open>isinstance\<close>: a list, a NumPy array, a pandas Series. The
  elements of a collection are strings. An array is given by its first element and the
  rest: the empty array is left out, since its truth value depends on the NumPy version.
\<close>

datatype path_arg =
    PNone
  | PStr string
  | PList "string list"
  | PArray string "string list"
  | PSeries "string list"

text \<open>
  The truth value Python gives the argument in \<open>if not url_or_path\<close>: \<open>None\<close>, the
  empty string and the empty list are false; an array of one element has the truth value
  of that element; an array of more than one element and every Series raise ValueError.
\<close>

definition truthy :: "path_arg \<Rightarrow> exn + bool" where
  "truthy a =
     (case a of
        PNone \<Rightarrow> Inr False
      | PStr s \<Rightarrow> Inr (s \<noteq> [])
      | PList xs \<Rightarrow> Inr (xs \<noteq> [])
      | PArray x xs \<Rightarrow>
          (if xs = [] then Inr (x \<noteq> [])
           else Inl (Exn ''ValueError''
             ''The truth value of an array with more than one element is ambiguous. Use a.any() or a.all()''))
      | PSeries xs \<Rightarrow>
          Inl (Exn ''ValueError''
            ''The truth value of a Series is ambiguous. Use a.empty, a.bool(), a.item(), a.any() or a.all().''))"

text \<open>
  Lines 216 to 222 and 250 to 258: a collection is replaced by its element \<open>[0]\<close>, then
  \<open>str\<close> is applied. The result is \<open>None\<close> for an empty collection, where both
  functions return at once.
\<close>

definition first_as_str :: "path_arg \<Rightarrow> string option" where
  "first_as_str a =
     (case a of
        PNone \<Rightarrow> Some ''None''
      | PStr s \<Rightarrow> Some s
      | PList xs \<Rightarrow> (case xs of [] \<Rightarrow> None | x # _ \<Rightarrow> Some x)
      | PArray x xs \<Rightarrow> Some x
      | PSeries xs \<Rightarrow> (case xs of [] \<Rightarrow> None | x # _ \<Rightarrow> Some x))"

text \<open>\<open>url_or_path.startswith(("http://", "https://"))\<close>.\<close>

definition is_http_url :: "string \<Rightarrow> bool" where
  "is_http_url s = (prefix ''http://'' s \<or> prefix ''https://'' s)"

text \<open>Lines 213 to 234. The function has a \<open>try\<close> around the HEAD request only; the
  second component lists the requests made.\<close>

definition is_valid_image_path :: "world \<Rightarrow> path_arg \<Rightarrow> (exn + bool) \<times> net_call list" where
  "is_valid_image_path w url_or_path =
     (case truthy url_or_path of
        Inl e \<Rightarrow> (Inl e, [])
      | Inr t \<Rightarrow>
          (if \<not> t then (Inr False, [])
           else (case first_as_str url_or_path of
                   None \<Rightarrow> (Inr False, [])
                 | Some s \<Rightarrow>
                     (if is_http_url s then
                        ((case http_head w s (Some 5) of
                            Inl e \<Rightarrow> Inr False
                          | Inr status_code \<Rightarrow> Inr (status_code = 200)),
                         [Head s (Some 5)])
                      else (Inr (path_exists w s), [])))))"

text \<open>Lines 247 to 283, the body of the outer \<open>try\<close>.\<close>

definition load_image_try :: "world \<Rightarrow> path_arg \<Rightarrow> (exn + pil_image option) \<times> net_call list" where
  "load_image_try w url_or_path =
     (case truthy url_or_path of
        Inl e \<Rightarrow> (Inl e, [])
      | Inr t \<Rightarrow>
          (if \<not> t then (Inr None, [])
           else (case first_as_str url_or_path of
                   None \<Rightarrow> (Inr None, [])
                 | Some s \<Rightarrow>
                     (if is_http_url s then
                        ((case http_get w s (Some 10) of
                            Inl e \<Rightarrow> Inl e
                          | Inr (status_code, content) \<Rightarrow>
                              (if status_code = 200 then
                                 (case image_open_bytes w content of
                                    Inl e \<Rightarrow> Inr None
                                  | Inr img \<Rightarrow> Inr (Some img))
                               else Inr None)),
                         [Get s (Some 10)])
                      else if path_exists w s then
                        ((case image_open_path w s of
                            Inl e \<Rightarrow> Inr None
                          | Inr img \<Rightarrow> Inr (Some img)), [])
                      else (Inr None, [])))))"

text \<open>Lines 246 to 286: the outer \<open>except Exception\<close> returns \<open>None\<close>.\<close>

definition load_image_from_url_or_path ::
    "world \<Rightarrow> path_arg \<Rightarrow> (exn + pil_image option) \<times> net_call list" where
  "load_image_from_url_or_path w url_or_path =
     (case load_image_try w url_or_path of
        (Inl e, calls) \<Rightarrow> (Inr None, calls)
      | (Inr r, calls) \<Rightarrow> (Inr r, calls))"

text \<open>
  A small world for concrete runs: one reachable JPEG, one URL that serves a web page, one
  URL that answers 404, every other host unreachable; two local files, one a JPEG and
  one a text file named \<open>.jpg\<close>.
\<close>

definition demo_world :: world where
  "demo_world =
     \<lparr> http_head = (\<lambda>url t.
         if url = ''http://x/a.jpg'' \<or> url = ''http://x/page.jpg'' then Inr 200
         else if url = ''http://x/gone.jpg'' then Inr 404
         else Inl (Exn ''ConnectionError'' ''host unreachable'')),
       http_get = (\<lambda>url t.
         if url = ''http://x/a.jpg'' then Inr (200, ''JPEG-bytes'')
         else if url = ''http://x/page.jpg'' then Inr (200, ''<html>'')
         else if url = ''http://x/gone.jpg'' then Inr (404, ''not found'')
         else Inl (Exn ''ConnectionError'' ''host unreachable'')),
       path_exists = (\<lambda>p. p = ''cars/swift.jpg'' \<or> p = ''cars/notes.jpg''),
       image_open_bytes = (\<lambda>b.
         if b = ''JPEG-bytes'' then Inr (PilImage ''JPEG'')
         else Inl (Exn ''UnidentifiedImageError'' ''cannot identify image file'')),
       image_open_path = (\<lambda>p.
         if p = ''cars/swift.jpg'' then Inr (PilImage ''JPEG'')
         else Inl (Exn ''UnidentifiedImageError'' ''cannot identify image file'')),
       read_file = (\<lambda>p.
         if p = ''cars/swift.jpg'' then Inr ''JPEG-bytes''
         else if p = ''cars/notes.jpg'' then Inr ''plain text''
         else Inl (Exn ''FileNotFoundError'' ''No such file or directory'')),
       image_verify = (\<lambda>b.
         if b = ''JPEG-bytes'' then None
         else Some (Exn ''UnidentifiedImageError'' ''cannot identify image file'')) \<rparr>"

section \<open>The indexers\<close>

subsection \<open>The data frame, the table and the printed diagnostics\<close>

text \<open>
  A cell of the column \<open>image_url\<close> in the frame that \<open>pd.read_csv\<close> returns: a string,
  or the missing value \<open>NaN\<close> that pandas stores for an empty field. \<open>NaN\<close> is a float:
  it has no \<open>split\<close> method. The other columns are only copied and are taken as
  strings; the frame is taken to have all five columns.
\<close>

datatype cell = Str string | NaN

record csv_row =
  csv_car_label :: string
  csv_car_info :: string
  csv_car_type :: string
  csv_fuel_type :: string
  csv_image_url :: cell

text \<open>The exception of \<open>image_url_string.split(',')\<close> on \<open>NaN\<close>.\<close>

definition float_has_no_split :: exn where
  "float_has_no_split = Exn ''AttributeError'' ''float object has no attribute split''"

text \<open>
  The LanceDB table as the indexers use it: its rows, its two indexes, and the calls made
  on it so far. \<open>Add n\<close> is \<open>table.add\<close> of a frame of \<open>n\<close> rows, \<open>CreateIndex\<close>
  carries \<open>vector_column_name\<close>, \<open>metric\<close> and \<open>index_type\<close>, \<open>CreateFtsIndex\<close>
  the columns and \<open>replace\<close>.
\<close>

datatype table_call =
    Add nat
  | CreateIndex string string string
  | CreateFtsIndex "string list" bool

record 'r table =
  tbl_rows :: "'r list"
  tbl_vector_index :: "(string \<times> string \<times> string) option"
  tbl_fts_index :: "string list option"
  tbl_calls :: "table_call list"

text \<open>Whether a call on the table raises is decided by the store.\<close>

record 'r store =
  add_fault :: "'r list \<Rightarrow> exn option"
  index_fault :: "exn option"
  fts_fault :: "exn option"

text \<open>A call is recorded whether it succeeds or not; it changes the table only when it
  succeeds.\<close>

definition table_add :: "'r store \<Rightarrow> 'r list \<Rightarrow> 'r table \<Rightarrow> exn option \<times> 'r table" where
  "table_add st data t =
     (let t' = t\<lparr>tbl_calls := tbl_calls t @ [Add (length data)]\<rparr>
      in case add_fault st data of
           Some e \<Rightarrow> (Some e, t')
         | None \<Rightarrow> (None, t'\<lparr>tbl_rows := tbl_rows t @ data\<rparr>))"

definition create_index ::
    "'r store \<Rightarrow> string \<Rightarrow> string \<Rightarrow> string \<Rightarrow> 'r table \<Rightarrow> exn option \<times> 'r table" where
  "create_index st vector_column_name metric index_type t =
     (let t' = t\<lparr>tbl_calls := tbl_calls t @ [CreateIndex vector_column_name metric index_type]\<rparr>
      in case index_fault st of
           Some e \<Rightarrow> (Some e, t')
         | None \<Rightarrow> (None, t'\<lparr>tbl_vector_index := Some (vector_column_name, metric, index_type)\<rparr>))"

definition create_fts_index ::
    "'r store \<Rightarrow> string list \<Rightarrow> bool \<Rightarrow> 'r table \<Rightarrow> exn option \<times> 'r table" where
  "create_fts_index st columns replace t =
     (let t' = t\<lparr>tbl_calls := tbl_calls t @ [CreateFtsIndex columns replace]\<rparr>
      in case fts_fault st of
           Some e \<Rightarrow> (Some e, t')
         | None \<Rightarrow> (None, t'\<lparr>tbl_fts_index := Some columns\<rparr>))"

text \<open>The \<open>print\<close> statements of the two indexers, one constructor each, with the values
  they interpolate.\<close>

datatype message =
    LoadedCsv
  | NoValidUrls string
  | AddingEntries nat
  | CreatingVectorIndex
  | VectorIndexCreated
  | VectorIndexFailed exn
  | RunningWithoutIndex
  | CreatingFtsIndex
  | ProcessedImage string
  | FileNotFound string
  | SkippingCorrupted string exn
  | AddingImages nat

subsection \<open>indexers/index\_text\_data.py: process\_data\_from\_csv\<close>

text \<open>Line 85: \<open>[url.strip() for url in image_url_string.split(',') if url.strip()]\<close>.\<close>

definition split_urls :: "string \<Rightarrow> string list" where
  "split_urls image_url_string =
     map strip (filter (\<lambda>url. strip url \<noteq> []) (split CHR '','' image_url_string))"

text \<open>Lines 77 to 98: the loop over \<open>df.iterrows()\<close>, with \<open>processed_data\<close> and the
  messages printed so far.\<close>

fun text_rows ::
    "csv_row list \<Rightarrow> car_dict list \<Rightarrow> message list \<Rightarrow> (exn + car_dict list) \<times> message list" where
  "text_rows [] processed_data msgs = (Inr processed_data, msgs)"
| "text_rows (row # rows) processed_data msgs =
     (case csv_image_url row of
        NaN \<Rightarrow> (Inl float_has_no_split, msgs)
      | Str image_url_string \<Rightarrow>
          (let urls = split_urls image_url_string in
           if urls = [] then
             text_rows rows processed_data (msgs @ [NoValidUrls (csv_car_label row)])
           else
             text_rows rows
               (processed_data @
                  [\<lparr> label = csv_car_label row,
                      car_type = csv_car_type row,
                      fuel_type = csv_fuel_type row,
                      car_info = csv_car_info row,
                      image_urls = urls \<rparr>])
               msgs))"

text \<open>Lines 100 to 125, when \<open>processed_data\<close> is not empty: the batch is added, the
  vector index is built inside a \<open>try\<close>, the full-text index outside one.\<close>

definition index_text_batch ::
    "car_dict store \<Rightarrow> car_dict list \<Rightarrow> car_dict table \<Rightarrow> message list
     \<Rightarrow> (exn + nat) \<times> car_dict table \<times> message list" where
  "index_text_batch st processed_data t msgs =
     (let msgs1 = msgs @ [AddingEntries (length processed_data)] in
      case table_add st processed_data t of
        (Some e, t1) \<Rightarrow> (Inl e, t1, msgs1)
      | (None, t1) \<Rightarrow>
          (case create_index st ''vector'' ''cosine'' ''IVF_FLAT'' t1 of
             (r, t2) \<Rightarrow>
               (let msgs2 = msgs1 @ [CreatingVectorIndex] @
                      (case r of
                         None \<Rightarrow> [VectorIndexCreated]
                       | Some e \<Rightarrow> [VectorIndexFailed e, RunningWithoutIndex]) @
                      [CreatingFtsIndex]
                in case create_fts_index st [''label'', ''car_info'', ''car_type'', ''fuel_type''] True t2 of
                     (Some e, t3) \<Rightarrow> (Inl e, t3, msgs2)
                   | (None, t3) \<Rightarrow> (Inr (length processed_data), t3, msgs2))))"

text \<open>Lines 72 to 127, from the frame \<open>df\<close> that \<open>pd.read_csv\<close> returned: the value
  or the exception, the table afterwards, and what was printed.\<close>

definition process_data_from_csv ::
    "car_dict store \<Rightarrow> csv_row list \<Rightarrow> car_dict table
     \<Rightarrow> (exn + nat) \<times> car_dict table \<times> message list" where
  "process_data_from_csv st df t =
     (case text_rows df [] [LoadedCsv] of
        (Inl e, msgs) \<Rightarrow> (Inl e, t, msgs)
      | (Inr processed_data, msgs) \<Rightarrow>
          (if processed_data \<noteq> [] then index_text_batch st processed_data t msgs
           else (Inr 0, t, msgs)))"

subsection \<open>indexers/index\_image\_data.py: process\_images\_from\_csv\<close>

text \<open>The dictionary appended to \<open>image_data\<close>.\<close>

record image_record =
  img_label :: string
  img_car_info :: string
  image_uri :: string
  image_bytes :: string

text \<open>What the image indexer does besides changing the table, in order: requests and
  prints.\<close>

datatype event = Net net_call | Print message

text \<open>
  Lines 81 to 114: the loop over \<open>image_url_string.split(',')\<close> for one row. In the
  branch for a path that starts with \<open>http\<close> the response content is assigned to
  \<open>img_bytes\<close> and nothing else is done: the verification and the \<open>append\<close> stand
  inside the \<open>if os.path.exists\<close> of the other branch. \<open>requests.get\<close> is called
  with the URL alone.
\<close>

fun image_paths ::
    "world \<Rightarrow> string \<Rightarrow> string \<Rightarrow> string list \<Rightarrow> image_record list \<Rightarrow> event list
     \<Rightarrow> image_record list \<times> event list" where
  "image_paths w car_model info [] image_data log = (image_data, log)"
| "image_paths w car_model info (p # ps) image_data log =
     (let single_path = strip p in
      if single_path = [] then image_paths w car_model info ps image_data log
      else if prefix ''http'' single_path then
        (case http_get w single_path None of
           Inl e \<Rightarrow>
             image_paths w car_model info ps image_data
               (log @ [Net (Get single_path None), Print (SkippingCorrupted single_path e)])
         | Inr response \<Rightarrow>
             image_paths w car_model info ps image_data (log @ [Net (Get single_path None)]))
      else if path_exists w single_path then
        (case read_file w single_path of
           Inl e \<Rightarrow>
             image_paths w car_model info ps image_data
               (log @ [Print (SkippingCorrupted single_path e)])
         | Inr img_bytes \<Rightarrow>
             (case image_verify w img_bytes of
                Some e \<Rightarrow>
                  image_paths w car_model info ps image_data
                    (log @ [Print (SkippingCorrupted single_path e)])
              | None \<Rightarrow>
                  image_paths w car_model info ps
                    (image_data @
                       [\<lparr> img_label = car_model, img_car_info = info,
                           image_uri = single_path, image_bytes = img_bytes \<rparr>])
                    (log @ [Print (ProcessedImage single_path)])))
      else image_paths w car_model info ps image_data (log @ [Print (FileNotFound single_path)]))"

text \<open>Lines 73 to 114: the loop over the rows; the \<open>split\<close> of line 81 is outside the
  \<open>try\<close>.\<close>

fun image_rows ::
    "world \<Rightarrow> csv_row list \<Rightarrow> image_record list \<Rightarrow> event list
     \<Rightarrow> (exn + image_record list) \<times> event list" where
  "image_rows w [] image_data log = (Inr image_data, log)"
| "image_rows w (row # rows) image_data log =
     (case csv_image_url row of
        NaN \<Rightarrow> (Inl float_has_no_split, log)
      | Str image_url_string \<Rightarrow>
          (case image_paths w (csv_car_label row) (csv_car_info row)
                  (split CHR '','' image_url_string) image_data log of
             (image_data', log') \<Rightarrow> image_rows w rows image_data' log'))"

text \<open>Lines 68 to 128, from the frame \<open>df\<close>.\<close>

definition process_images_from_csv ::
    "world \<Rightarrow> image_record store \<Rightarrow> csv_row list \<Rightarrow> image_record table
     \<Rightarrow> (exn + nat) \<times> image_record table \<times> event list" where
  "process_images_from_csv w st df t =
     (case image_rows w df [] [Print LoadedCsv] of
        (Inl e, log) \<Rightarrow> (Inl e, t, log)
      | (Inr image_data, log) \<Rightarrow>
          (if image_data \<noteq> [] then
             (let log1 = log @ [Print (AddingImages (length image_data))] in
              case table_add st image_data t of
                (Some e, t1) \<Rightarrow> (Inl e, t1, log1)
              | (None, t1) \<Rightarrow>
                  (case create_fts_index st [''label'', ''car_info''] True t1 of
                     (Some e, t2) \<Rightarrow> (Inl e, t2, log1 @ [Print CreatingFtsIndex])
                   | (None, t2) \<Rightarrow>
                       (Inr (length image_data), t2, log1 @ [Print CreatingFtsIndex])))
           else (Inr 0, t, log)))"

subsection \<open>Concrete frames and tables\<close>

text \<open>A store on which no call fails, and a freshly created table.\<close>

definition sound_store :: "'r store" where
  "sound_store = \<lparr> add_fault = (\<lambda>data. None), index_fault = None, fts_fault = None \<rparr>"

definition new_table :: "'r table" where
  "new_table = \<lparr> tbl_rows = [], tbl_vector_index = None, tbl_fts_index = None, tbl_calls = [] \<rparr>"

definition csv_row_of :: "string \<Rightarrow> cell \<Rightarrow> csv_row" where
  "csv_row_of car_model image_url =
     \<lparr> csv_car_label = car_model, csv_car_info = ''Compact city car'',
       csv_car_type = ''Hatchback'', csv_fuel_type = ''Petrol'', csv_image_url = image_url \<rparr>"

text \<open>The row of the scenario, a row whose field holds only blanks and a comma, and a row
  whose field is empty in the CSV file.\<close>

definition two_urls_row :: csv_row where
  "two_urls_row = csv_row_of ''Swift'' (Str ''http://x/a.jpg, http://x/b.jpg'')"

definition blank_row :: csv_row where
  "blank_row = csv_row_of ''Alto'' (Str '' , '')"

definition empty_field_row :: csv_row where
  "empty_field_row = csv_row_of ''Baleno'' NaN"

text \<open>Rows for the image indexer: a reachable JPEG on the web, a local JPEG, and a local
  text file named \<open>.jpg\<close>.\<close>

definition http_image_row :: csv_row where
  "http_image_row = csv_row_of ''Swift'' (Str ''http://x/a.jpg'')"

definition local_image_row :: csv_row where
  "local_image_row = csv_row_of ''Swift'' (Str ''cars/notes.jpg, cars/swift.jpg'')"

section \<open>ui/car\_search\_ui.py\<close>

subsection \<open>validate\_image\<close>

text \<open>
  The file object handed to \<open>validate_image\<close>, by what the four operations on it give:
  \<open>Image.open(image_file)\<close>, \<open>image.verify()\<close>, \<open>image_file.seek(0)\<close> and the
  attribute \<open>image_file.size\<close> in bytes (AttributeError on an object without it).
\<close>

record upload =
  up_open :: "exn + pil_image"
  up_verify :: "exn option"
  up_seek :: "exn option"
  up_size :: "exn + nat"

definition unsupported_format_message :: "string \<Rightarrow> string" where
  "unsupported_format_message fmt =
     ''Unsupported image format: '' @ fmt @ ''. Please upload JPEG or PNG images only.''"

definition too_large_message :: string where
  "too_large_message = ''Image file is too large. Please upload images smaller than 5MB.''"

definition invalid_image_message :: "exn \<Rightarrow> string" where
  "invalid_image_message e = ''Invalid image file: '' @ exn_msg e"

text \<open>Lines 417 to 430, the body of the \<open>try\<close>.\<close>

definition validate_image_try :: "upload \<Rightarrow> exn + (bool \<times> string option)" where
  "validate_image_try image_file =
     (case up_open image_file of
        Inl e \<Rightarrow> Inl e
      | Inr img \<Rightarrow>
          (case up_verify image_file of
             Some e \<Rightarrow> Inl e
           | None \<Rightarrow>
               (case up_seek image_file of
                  Some e \<Rightarrow> Inl e
                | None \<Rightarrow>
                    (if lower (img_format img) \<notin> set [''jpeg'', ''jpg'', ''png''] then
                       Inr (False, Some (unsupported_format_message (img_format img)))
                     else (case up_size image_file of
                             Inl e \<Rightarrow> Inl e
                           | Inr file_size \<Rightarrow>
                               (if file_size > 5 * 1024 * 1024 then Inr (False, Some too_large_message)
                                else Inr (True, None)))))))"

text \<open>Lines 416 to 432: \<open>except Exception\<close> gives the pair with the "Invalid image
  file" message.\<close>

definition validate_image :: "upload \<Rightarrow> exn + (bool \<times> string option)" where
  "validate_image image_file =
     (case validate_image_try image_file of
        Inl e \<Rightarrow> Inr (False, Some (invalid_image_message e))
      | Inr r \<Rightarrow> Inr r)"

subsection \<open>search\_cars\_by\_image and the image tab of main\<close>

text \<open>The image table as the search sees it: the nearest records for a query image and a
  cap, or an exception. A call on the store is recorded with the path of the query image.\<close>

type_synonym image_table = "pil_image \<Rightarrow> int \<Rightarrow> exn + image_record list"

datatype store_call = ImageSearch string int

text \<open>core/car\_search\_core.py, lines 190 to 201.\<close>

definition search_cars_by_image ::
    "world \<Rightarrow> image_table \<Rightarrow> string \<Rightarrow> int \<Rightarrow> (exn + image_record list option) \<times> store_call list" where
  "search_cars_by_image w image_table image_path limit =
     (case image_open_path w image_path of
        Inl e \<Rightarrow> (Inr None, [])
      | Inr query_image \<Rightarrow>
          ((case image_table query_image limit of
              Inl e \<Rightarrow> Inr None
            | Inr results \<Rightarrow> Inr (if results \<noteq> [] then Some results else None)),
           [ImageSearch image_path limit]))"

text \<open>\<open>st.session_state\<close>, and what the tab shows: \<open>st.error\<close> with the validation
  message or the processing error, the uploaded image, the result count, the "no similar
  cars" warning.\<close>

record session =
  temp_image_path :: "string option"

datatype ui_output =
    StError "string option"
  | ShowUploaded
  | FoundSimilar nat
  | NoSimilar

text \<open>
  Lines 541 to 580: the upload is validated; a rejected upload is shown as an error and
  \<open>uploaded_file\<close> is set to \<open>None\<close>; an accepted one is converted and saved
  (\<open>save\<close>, lines 552 to 569, gives the path written or raises). The boolean tells
  whether \<open>uploaded_file\<close> is still set afterwards.
\<close>

definition upload_step ::
    "(upload \<Rightarrow> exn + string) \<Rightarrow> upload option \<Rightarrow> session
     \<Rightarrow> (exn + bool) \<times> session \<times> ui_output list" where
  "upload_step save uploaded_file sess =
     (case uploaded_file of
        None \<Rightarrow> (Inr False, sess, [])
      | Some f \<Rightarrow>
          (case validate_image f of
             Inl e \<Rightarrow> (Inl e, sess, [])
           | Inr (is_valid, error_message) \<Rightarrow>
               (if \<not> is_valid then (Inr False, sess, [StError error_message])
                else (case save f of
                        Inl e \<Rightarrow>
                          (Inr False, sess\<lparr>temp_image_path := None\<rparr>, [StError (Some (exn_msg e))])
                      | Inr image_path \<Rightarrow>
                          (Inr True, sess\<lparr>temp_image_path := Some image_path\<rparr>, [ShowUploaded])))))"

text \<open>
  Lines 539 to 617, one run of the script through the image tab. \<open>click_search\<close> and
  \<open>click_reset\<close> say which button the user pressed. The search button is created with
  \<open>disabled=not uploaded_file\<close>, and a disabled button returns \<open>False\<close>. The reset
  button ends the run with \<open>st.rerun()\<close>. The last component lists the calls made on the
  store.
\<close>

definition image_tab ::
    "world \<Rightarrow> image_table \<Rightarrow> (upload \<Rightarrow> exn + string) \<Rightarrow> upload option \<Rightarrow> bool \<Rightarrow> bool \<Rightarrow> session
     \<Rightarrow> (exn + unit) \<times> session \<times> ui_output list \<times> store_call list" where
  "image_tab w image_table save uploaded_file click_search click_reset sess =
     (case upload_step save uploaded_file sess of
        (Inl e, sess1, out) \<Rightarrow> (Inl e, sess1, out, [])
      | (Inr have_file, sess1, out) \<Rightarrow>
          (let img_search_clicked = (click_search \<and> have_file) in
           if click_reset then (Inr (), sess1\<lparr>temp_image_path := None\<rparr>, out, [])
           else (case temp_image_path sess1 of
                   None \<Rightarrow> (Inr (), sess1, out, [])
                 | Some path \<Rightarrow>
                     (if img_search_clicked \<and> path \<noteq> [] then
                        (case search_cars_by_image w image_table path 6 of
                           (Inr (Some results), calls) \<Rightarrow>
                             (Inr (), sess1, out @ [FoundSimilar (length results)], calls)
                         | (_, calls) \<Rightarrow> (Inr (), sess1, out @ [NoSimilar], calls))
                      else (Inr (), sess1, out, [])))))"

text \<open>A well-formed PNG of 6 MB, and a session that still holds the path of an earlier
  upload.\<close>

definition six_mb_png :: upload where
  "six_mb_png =
     \<lparr> up_open = Inr (PilImage ''PNG''), up_verify = None, up_seek = None,
       up_size = Inr (6 * 1024 * 1024) \<rparr>"

definition earlier_session :: session where
  "earlier_session = \<lparr> temp_image_path = Some ''temp/temp_image.jpg'' \<rparr>"

text \<open>A file that is not an image, and a well-formed GIF.\<close>

definition text_file_upload :: upload where
  "text_file_upload =
     \<lparr> up_open = Inl (Exn ''UnidentifiedImageError'' ''cannot identify image file''),
       up_verify = None, up_seek = None, up_size = Inr 12 \<rparr>"

definition gif_upload :: upload where
  "gif_upload =
     \<lparr> up_open = Inr (PilImage ''GIF''), up_verify = None, up_seek = None, up_size = Inr 2048 \<rparr>"

text \<open>A PNG whose data is cut short: it opens, and \<open>verify()\<close> raises.\<close>

definition truncated_png_upload :: upload where
  "truncated_png_upload =
     \<lparr> up_open = Inr (PilImage ''PNG''),
       up_verify = Some (Exn ''SyntaxError'' ''broken PNG file''),
       up_seek = None, up_size = Inr 512 \<rparr>"

text \<open>Line 87: the row takes the \<open>continue\<close> of the text indexer, that is, its
  \<open>image_url\<close> is a string that yields no entry.\<close>

definition row_is_skipped :: "csv_row \<Rightarrow> bool" where
  "row_is_skipped row =
     (case csv_image_url row of
        Str image_url_string \<Rightarrow> split_urls image_url_string = []
      | NaN \<Rightarrow> False)"

section \<open>Properties of the string methods\<close>

text \<open>The characters of a string put together again give the string.\<close>

lemma concat_utf8_chars: "concat (utf8_chars s) = s"
  by (induction s) (auto split: list.splits)

text \<open>In a string without continuation bytes every byte is a character, and \<open>strip\<close>
  removes the white space bytes at both ends.\<close>

lemma utf8_chars_ascii:
  "\<forall>c\<in>set s. \<not> is_cont c \<Longrightarrow> utf8_chars s = map (\<lambda>c. [c]) s"
  by (induction s) (auto split: list.splits)

lemma strip_ascii:
  assumes "\<forall>c\<in>set s. \<not> is_cont c"
  shows "strip s = rev (dropWhile (\<lambda>c. is_space [c]) (rev (dropWhile (\<lambda>c. is_space [c]) s)))"
proof -
  have m: "concat (map (\<lambda>c. [c]) xs) = xs" for xs :: string
    by (induction xs) auto
  show ?thesis
    by (simp add: strip_def utf8_chars_ascii [OF assms] dropWhile_map comp_def rev_map m)
qed

lemma is_space_byte:
  "is_space [c] = (let n = (of_char c :: nat) in n < 128 \<and> isspace n)"
  by (simp add: is_space_def code_point_def Let_def)

lemmas strip_eval = strip_ascii is_cont_def is_space_byte isspace_def

text \<open>A field that holds only a no-break space (U+00A0), or a next-line character
  (U+0085) and an Ogham space mark (U+1680) around a comma, yields no entry.\<close>

lemma unicode_blank_field_yields_no_url:
  "split_urls [CHR 0xC2, CHR 0xA0] = []"
  "split_urls [CHR 0xC2, CHR 0x85, CHR '','', CHR 0xE1, CHR 0x9A, CHR 0x80] = []"
  by (simp_all add: split_urls_def strip_def is_cont_def is_space_def code_point_def isspace_def)

section \<open>Properties of the text search\<close>

lemma remdups_snoc: "remdups (ys @ [x]) = filter (\<lambda>y. y \<noteq> x) (remdups ys) @ [x]"
  by (induction ys) auto

lemma first_seen_Cons:
  "rev (remdups (rev (x # xs))) = x # filter (\<lambda>y. y \<noteq> x) (rev (remdups (rev xs)))"
  by (simp add: remdups_snoc rev_filter)

lemma row_result_label: "row_result row = Inr d \<Longrightarrow> row_label row = Some (label d)"
  by (auto simp: row_result_def split: option.splits)

lemma row_result_total:
  "row_label row \<noteq> None \<Longrightarrow> row_car_info row \<noteq> None \<Longrightarrow> \<exists>d. row_result row = Inr d"
  by (auto simp: row_result_def split: option.splits)

lemma unique_loop_labels:
  "unique_loop rows seen acc = Inr out \<Longrightarrow>
   \<exists>new. out = acc @ new \<and>
     map (Some \<circ> label) new =
       filter (\<lambda>x. x \<notin> Some ` seen) (rev (remdups (rev (map row_label rows))))"
proof (induction rows arbitrary: seen acc)
  case Nil
  then show ?case by simp
next
  case (Cons row rows)
  from Cons.prems obtain l where l: "row_label row = Some l"
    by (auto split: option.splits)
  show ?case
  proof (cases "l \<in> seen")
    case True
    with Cons.prems l have "unique_loop rows seen acc = Inr out" by simp
    from Cons.IH [OF this] obtain new where
      new: "out = acc @ new"
        "map (Some \<circ> label) new =
           filter (\<lambda>x. x \<notin> Some ` seen) (rev (remdups (rev (map row_label rows))))"
      by blast
    have "filter (\<lambda>x. x \<notin> Some ` seen) (rev (remdups (rev (map row_label (row # rows))))) =
          filter (\<lambda>x. x \<notin> Some ` seen) (rev (remdups (rev (map row_label rows))))"
      using True l by (auto simp: first_seen_Cons simp del: rev.simps intro!: filter_cong)
    with new show ?thesis by metis
  next
    case False
    with Cons.prems l obtain d where d: "row_result row = Inr d"
      and rec: "unique_loop rows (insert l seen) (acc @ [d]) = Inr out"
      by (auto split: sum.splits)
    from Cons.IH [OF rec] obtain new where
      new: "out = (acc @ [d]) @ new"
        "map (Some \<circ> label) new =
           filter (\<lambda>x. x \<notin> Some ` insert l seen) (rev (remdups (rev (map row_label rows))))"
      by blast
    have ld: "label d = l" using row_result_label [OF d] l by simp
    have "filter (\<lambda>x. x \<notin> Some ` seen) (rev (remdups (rev (map row_label (row # rows))))) =
          Some l # filter (\<lambda>x. x \<notin> Some ` insert l seen) (rev (remdups (rev (map row_label rows))))"
      using False l by (auto simp: first_seen_Cons simp del: rev.simps intro!: filter_cong)
    with new ld have "out = acc @ (d # new) \<and> map (Some \<circ> label) (d # new) =
        filter (\<lambda>x. x \<notin> Some ` seen) (rev (remdups (rev (map row_label (row # rows)))))"
      by simp
    then show ?thesis by blast
  qed
qed

lemma unique_loop_first:
  "unique_loop rows seen acc = Inr out \<Longrightarrow>
   \<exists>new. out = acc @ new \<and>
     (\<forall>d\<in>set new. label d \<notin> seen \<and>
        (\<exists>r. find (\<lambda>r. row_label r = Some (label d)) rows = Some r \<and> row_result r = Inr d))"
proof (induction rows arbitrary: seen acc)
  case Nil
  then show ?case by simp
next
  case (Cons row rows)
  from Cons.prems obtain l where l: "row_label row = Some l"
    by (auto split: option.splits)
  show ?case
  proof (cases "l \<in> seen")
    case True
    with Cons.prems l have "unique_loop rows seen acc = Inr out" by simp
    from Cons.IH [OF this] obtain new where
      new: "out = acc @ new"
        "\<forall>d\<in>set new. label d \<notin> seen \<and>
           (\<exists>r. find (\<lambda>r. row_label r = Some (label d)) rows = Some r \<and> row_result r = Inr d)"
      by blast
    have "\<forall>d\<in>set new. label d \<notin> seen \<and>
           (\<exists>r. find (\<lambda>r. row_label r = Some (label d)) (row # rows) = Some r \<and> row_result r = Inr d)"
      using new(2) True l by auto
    with new(1) show ?thesis by blast
  next
    case False
    with Cons.prems l obtain d where d: "row_result row = Inr d"
      and rec: "unique_loop rows (insert l seen) (acc @ [d]) = Inr out"
      by (auto split: sum.splits)
    from Cons.IH [OF rec] obtain new where
      new: "out = (acc @ [d]) @ new"
        "\<forall>d\<in>set new. label d \<notin> insert l seen \<and>
           (\<exists>r. find (\<lambda>r. row_label r = Some (label d)) rows = Some r \<and> row_result r = Inr d)"
      by blast
    have ld: "label d = l" using row_result_label [OF d] l by simp
    have "\<forall>d'\<in>set (d # new). label d' \<notin> seen \<and>
           (\<exists>r. find (\<lambda>r. row_label r = Some (label d')) (row # rows) = Some r \<and> row_result r = Inr d')"
      using new(2) False l d ld by auto
    moreover have "out = acc @ (d # new)" using new(1) by simp
    ultimately show ?thesis by blast
  qed
qed

lemma row_result_result_row: "row_result (result_row d) = Inr d"
  by (simp add: row_result_def result_row_def normalize_image_urls_def)

lemma unique_loop_on_results:
  "distinct (map label ds) \<Longrightarrow> label ` set ds \<inter> seen = {} \<Longrightarrow>
   unique_loop (map result_row ds) seen acc = Inr (acc @ ds)"
proof (induction ds arbitrary: seen acc)
  case Nil
  then show ?case by simp
next
  case (Cons d ds)
  have l: "row_label (result_row d) = Some (label d)" by (simp add: result_row_def)
  have notin: "label d \<notin> seen" using Cons.prems(2) by auto
  have "unique_loop (map result_row ds) (insert (label d) seen) (acc @ [d]) = Inr ((acc @ [d]) @ ds)"
    using Cons.prems by (intro Cons.IH) auto
  then show ?case using l notin by (simp add: row_result_result_row)
qed

lemma unique_loop_total:
  "\<forall>r\<in>set rows. row_label r \<noteq> None \<and> row_car_info r \<noteq> None \<Longrightarrow>
   \<exists>out. unique_loop rows seen acc = Inr out"
proof (induction rows arbitrary: seen acc)
  case Nil
  then show ?case by simp
next
  case (Cons row rows)
  then obtain l d where "row_label row = Some l" "row_result row = Inr d"
    using row_result_total [of row] by auto
  then show ?case using Cons by (auto)
qed


lemma search_finish_None:
  "search_finish rows = Inr None \<longleftrightarrow> rows = []"
  by (auto simp: search_finish_def split: sum.splits)

lemma search_finish_not_empty_list: "search_finish rows \<noteq> Inr (Some [])"
proof
  assume a: "search_finish rows = Inr (Some [])"
  then have ne: "rows \<noteq> []" and u: "unique_results_of rows = Inr []"
    by (auto simp: search_finish_def split: if_splits sum.splits)
  from unique_loop_labels [OF u [unfolded unique_results_of_def]]
  have "rev (remdups (rev (map row_label rows))) = []" by simp
  then show False using ne by simp
qed

text \<open>
  C1 (as amended). When the full-text search returns an empty result set without raising,
  \<open>search_using_text_with_fts\<close> makes exactly two searches, the full-text one and then a
  vector search with the same query and the same cap; it raises nothing, never returns an
  empty list, and returns \<open>None\<close> exactly when the vector search returns an empty result
  set, or raises, or building the results from its rows raises.
\<close>

theorem fts_empty_falls_back_to_vector:
  assumes "text_table FTS query limit = Inr []"
  shows "snd (search_using_text_with_fts text_table query limit) =
           [(FTS, query, limit), (Vector, query, limit)]
       \<and> (\<exists>r. fst (search_using_text_with_fts text_table query limit) = Inr r)
       \<and> fst (search_using_text_with_fts text_table query limit) \<noteq> Inr (Some [])
       \<and> (fst (search_using_text_with_fts text_table query limit) = Inr None \<longleftrightarrow>
            text_table Vector query limit = Inr []
          \<or> (\<exists>e. text_table Vector query limit = Inl e)
          \<or> (\<exists>rows e. text_table Vector query limit = Inr rows \<and> unique_results_of rows = Inl e))"
proof (cases "text_table Vector query limit")
  case (Inl e)
  with assms show ?thesis
    by (simp add: search_using_text_with_fts_def search_try_def)
next
  case (Inr rows)
  show ?thesis
  proof (cases "search_finish rows")
    case (Inl e)
    then have "rows \<noteq> []" "unique_results_of rows = Inl e"
      by (auto simp: search_finish_def split: if_splits sum.splits)
    with assms Inr Inl show ?thesis
      by (auto simp: search_using_text_with_fts_def search_try_def)
  next
    case r: (Inr r)
    have "r \<noteq> Some []" using search_finish_not_empty_list [of rows] r by auto
    moreover have "r = None \<longleftrightarrow> rows = []" using search_finish_None [of rows] r by auto
    moreover have "rows \<noteq> [] \<Longrightarrow> \<exists>u. unique_results_of rows = Inr u"
      using r by (auto simp: search_finish_def split: if_splits sum.splits)
    ultimately show ?thesis using assms Inr r
      by (auto simp: search_using_text_with_fts_def search_try_def)
  qed
qed

text \<open>The hypothesis of C1 holds for a table whose vector search finds rows.\<close>

theorem fts_empty_falls_back_to_vector_witness:
  "vector_only_table FTS ''suv'' 6 = Inr []
   \<and> snd (search_using_text_with_fts vector_only_table ''suv'' 6) =
       [(FTS, ''suv'', 6), (Vector, ''suv'', 6)]
   \<and> fst (search_using_text_with_fts vector_only_table ''suv'' 6) \<noteq> Inr None"
proof -
  have h: "vector_only_table FTS ''suv'' 6 = Inr []"
    by (simp add: vector_only_table_def)
  have u: "unique_results_of [swift_row, swift_row] = Inr [swift_result]"
    by (simp add: unique_results_of_def swift_row_def swift_result_def row_result_def
        normalize_image_urls_def)
  have v: "vector_only_table Vector ''suv'' 6 = Inr [swift_row, swift_row]"
    by (simp add: vector_only_table_def)
  show ?thesis
    using fts_empty_falls_back_to_vector [of vector_only_table "''suv''" 6] h u v by auto
qed

text \<open>
  C1 as stated fails: with an empty full-text result and a vector search that raises, the
  function returns \<open>None\<close> although the vector attempt did not return an empty result
  set.
\<close>

theorem none_when_vector_search_raises_counterexample:
  "failing_vector_table FTS ''suv'' 6 = Inr []
   \<and> fst (search_using_text_with_fts failing_vector_table ''suv'' 6) = Inr None
   \<and> failing_vector_table Vector ''suv'' 6 \<noteq> Inr []"
  by (simp add: failing_vector_table_def search_using_text_with_fts_def search_try_def)

text \<open>
  C3. Deduplication by label keeps exactly the first row of each label, in first-seen
  order: the labels of the output are those of the rows with every repetition after the
  first removed, each output entry is built from the first row carrying its label, the
  labels are pairwise distinct, and the step applied to its own output gives the same
  list. The step returns whenever every row has a label and a car\_info. The same holds
  for every list that \<open>search_using_text_with_fts\<close> returns.
\<close>

theorem dedup_by_label_first_seen_idempotent:
  "(unique_results_of results = Inr out \<longrightarrow>
      distinct (map label out)
    \<and> map (Some \<circ> label) out = rev (remdups (rev (map row_label results)))
    \<and> (\<forall>d\<in>set out. \<exists>r. find (\<lambda>r. row_label r = Some (label d)) results = Some r
                         \<and> row_result r = Inr d)
    \<and> unique_results_of (map result_row out) = Inr out)
   \<and> ((\<forall>r\<in>set results. row_label r \<noteq> None \<and> row_car_info r \<noteq> None) \<longrightarrow>
        (\<exists>out'. unique_results_of results = Inr out'))
   \<and> (fst (search_using_text_with_fts text_table query limit) = Inr (Some found) \<longrightarrow>
        distinct (map label found) \<and> unique_results_of (map result_row found) = Inr found)"
proof -
  have dedup: "distinct (map label out')
      \<and> map (Some \<circ> label) out' = rev (remdups (rev (map row_label rows)))
      \<and> (\<forall>d\<in>set out'. \<exists>r. find (\<lambda>r. row_label r = Some (label d)) rows = Some r
                         \<and> row_result r = Inr d)
      \<and> unique_results_of (map result_row out') = Inr out'"
    if u: "unique_results_of rows = Inr out'" for rows out'
  proof -
    from unique_loop_labels [OF u [unfolded unique_results_of_def]]
    have lab: "map (Some \<circ> label) out' = rev (remdups (rev (map row_label rows)))" by simp
    have "distinct (map (Some \<circ> label) out')" unfolding lab by simp
    then have dist: "distinct (map label out')"
      by (simp add: distinct_map comp_def inj_on_def)
    from unique_loop_first [OF u [unfolded unique_results_of_def]]
    have first: "\<forall>d\<in>set out'. \<exists>r. find (\<lambda>r. row_label r = Some (label d)) rows = Some r
                         \<and> row_result r = Inr d" by auto
    have "unique_loop (map result_row out') {} [] = Inr ([] @ out')"
      using dist by (intro unique_loop_on_results) auto
    then have idem: "unique_results_of (map result_row out') = Inr out'"
      by (simp add: unique_results_of_def)
    from dist lab first idem show ?thesis by blast
  qed
  have total: "\<exists>out'. unique_results_of results = Inr out'"
    if "\<forall>r\<in>set results. row_label r \<noteq> None \<and> row_car_info r \<noteq> None"
    using unique_loop_total [OF that] by (simp add: unique_results_of_def)
  have search: "distinct (map label found) \<and> unique_results_of (map result_row found) = Inr found"
    if s: "fst (search_using_text_with_fts text_table query limit) = Inr (Some found)"
  proof -
    from s obtain rows where "search_finish rows = Inr (Some found)"
      by (auto simp: search_using_text_with_fts_def search_try_def
          split: sum.splits if_splits prod.splits)
    then have "unique_results_of rows = Inr found"
      by (auto simp: search_finish_def split: if_splits sum.splits)
    from dedup [OF this] show ?thesis by blast
  qed
  from dedup total search show ?thesis by blast
qed

text \<open>C3 at two rows of the same car.\<close>

theorem dedup_by_label_first_seen_idempotent_witness:
  "unique_results_of [swift_row, swift_row] = Inr [swift_result]
   \<and> fst (search_using_text_with_fts vector_only_table ''suv'' 6) = Inr (Some [swift_result])
   \<and> distinct (map label [swift_result])
   \<and> unique_results_of (map result_row [swift_result]) = Inr [swift_result]"
proof -
  have u: "unique_results_of [swift_row, swift_row] = Inr [swift_result]"
    by (simp add: unique_results_of_def swift_row_def swift_result_def row_result_def
        normalize_image_urls_def)
  have s: "fst (search_using_text_with_fts vector_only_table ''suv'' 6) = Inr (Some [swift_result])"
    using u by (simp add: search_using_text_with_fts_def search_try_def vector_only_table_def
        search_finish_def)
  have r: "\<forall>r\<in>set [swift_row, swift_row]. row_label r \<noteq> None \<and> row_car_info r \<noteq> None"
    by (simp add: swift_row_def)
  show ?thesis
    using dedup_by_label_first_seen_idempotent
      [of "[swift_row, swift_row]" "[swift_result]" vector_only_table "''suv''" 6 "[swift_result]"]
      u s r by blast
qed

section \<open>Properties of the image functions\<close>

text \<open>
  C4. \<open>load_image_from_url_or_path\<close> never lets an exception out, whatever the
  argument (a multi-element array and a Series included) and whatever the network, the
  file system and the decoder do. It returns \<open>None\<close> for a missing or empty input, and,
  for a string or a list whose first element is \<open>s\<close>: when the fetch of an HTTP(S) URL
  answers with a status other than 200, when the fetch raises, when the fetched bytes do
  not decode, when a local file does not exist, and when an existing local file does not
  decode.
\<close>

theorem load_image_never_raises_none_on_failure:
  "(\<exists>r. fst (load_image_from_url_or_path w a) = Inr r)
   \<and> (a \<in> {PNone, PStr [], PList []} \<longrightarrow> fst (load_image_from_url_or_path w a) = Inr None)
   \<and> (s \<noteq> [] \<and> a \<in> {PStr s, PList (s # rest)} \<longrightarrow>
        (is_http_url s \<and> http_get w s (Some 10) = Inr (status_code, content) \<and> status_code \<noteq> 200
           \<longrightarrow> fst (load_image_from_url_or_path w a) = Inr None)
      \<and> (is_http_url s \<and> http_get w s (Some 10) = Inl e
           \<longrightarrow> fst (load_image_from_url_or_path w a) = Inr None)
      \<and> (is_http_url s \<and> http_get w s (Some 10) = Inr (200, content)
            \<and> image_open_bytes w content = Inl e
           \<longrightarrow> fst (load_image_from_url_or_path w a) = Inr None)
      \<and> (\<not> is_http_url s \<and> \<not> path_exists w s
           \<longrightarrow> fst (load_image_from_url_or_path w a) = Inr None)
      \<and> (\<not> is_http_url s \<and> path_exists w s \<and> image_open_path w s = Inl e
           \<longrightarrow> fst (load_image_from_url_or_path w a) = Inr None))"
proof -
  have never: "\<exists>r. fst (load_image_from_url_or_path w a) = Inr r"
    by (cases "load_image_try w a")
       (auto simp: load_image_from_url_or_path_def split: sum.splits)
  have empty: "fst (load_image_from_url_or_path w a) = Inr None"
    if "a \<in> {PNone, PStr [], PList []}"
    using that
    by (auto simp: load_image_from_url_or_path_def load_image_try_def truthy_def)
  have rest: "(is_http_url s \<and> http_get w s (Some 10) = Inr (status_code, content) \<and> status_code \<noteq> 200
           \<longrightarrow> fst (load_image_from_url_or_path w a) = Inr None)
      \<and> (is_http_url s \<and> http_get w s (Some 10) = Inl e
           \<longrightarrow> fst (load_image_from_url_or_path w a) = Inr None)
      \<and> (is_http_url s \<and> http_get w s (Some 10) = Inr (200, content)
            \<and> image_open_bytes w content = Inl e
           \<longrightarrow> fst (load_image_from_url_or_path w a) = Inr None)
      \<and> (\<not> is_http_url s \<and> \<not> path_exists w s
           \<longrightarrow> fst (load_image_from_url_or_path w a) = Inr None)
      \<and> (\<not> is_http_url s \<and> path_exists w s \<and> image_open_path w s = Inl e
           \<longrightarrow> fst (load_image_from_url_or_path w a) = Inr None)"
    if "s \<noteq> [] \<and> a \<in> {PStr s, PList (s # rest)}"
  proof -
    from that have "truthy a = Inr True" "first_as_str a = Some s"
      by (auto simp: truthy_def first_as_str_def)
    then show ?thesis
      by (simp add: load_image_from_url_or_path_def load_image_try_def)
  qed
  from never empty rest show ?thesis by blast
qed

text \<open>
  C4 in the small world: an empty list, a 404, an unreachable host, a web page served with
  status 200, a missing file and a text file named \<open>.jpg\<close>.
\<close>

theorem load_image_never_raises_none_on_failure_witness:
  "fst (load_image_from_url_or_path demo_world (PList [])) = Inr None
   \<and> fst (load_image_from_url_or_path demo_world (PStr ''http://x/gone.jpg'')) = Inr None
   \<and> fst (load_image_from_url_or_path demo_world (PStr ''http://y/a.jpg'')) = Inr None
   \<and> fst (load_image_from_url_or_path demo_world (PList [''http://x/page.jpg''])) = Inr None
   \<and> fst (load_image_from_url_or_path demo_world (PStr ''cars/none.jpg'')) = Inr None
   \<and> fst (load_image_from_url_or_path demo_world (PStr ''cars/notes.jpg'')) = Inr None"
proof -
  have h: "is_http_url ''http://x/gone.jpg''" "is_http_url ''http://y/a.jpg''"
    "is_http_url ''http://x/page.jpg''" "\<not> is_http_url ''cars/none.jpg''"
    "\<not> is_http_url ''cars/notes.jpg''"
    by (simp_all add: is_http_url_def)
  have g: "http_get demo_world ''http://x/gone.jpg'' (Some 10) = Inr (404, ''not found'')"
    "http_get demo_world ''http://y/a.jpg'' (Some 10)
       = Inl (Exn ''ConnectionError'' ''host unreachable'')"
    "http_get demo_world ''http://x/page.jpg'' (Some 10) = Inr (200, ''<html>'')"
    "image_open_bytes demo_world ''<html>''
       = Inl (Exn ''UnidentifiedImageError'' ''cannot identify image file'')"
    "\<not> path_exists demo_world ''cars/none.jpg''"
    "path_exists demo_world ''cars/notes.jpg''"
    "image_open_path demo_world ''cars/notes.jpg''
       = Inl (Exn ''UnidentifiedImageError'' ''cannot identify image file'')"
    by (simp_all add: demo_world_def)
  show ?thesis
    using
      load_image_never_raises_none_on_failure [where w = demo_world and a = "PList []"]
      load_image_never_raises_none_on_failure
        [where w = demo_world and a = "PStr ''http://x/gone.jpg''" and s = "''http://x/gone.jpg''"
           and status_code = 404 and content = "''not found''"]
      load_image_never_raises_none_on_failure
        [where w = demo_world and a = "PStr ''http://y/a.jpg''" and s = "''http://y/a.jpg''"
           and e = "Exn ''ConnectionError'' ''host unreachable''"]
      load_image_never_raises_none_on_failure
        [where w = demo_world and a = "PList [''http://x/page.jpg'']"
           and s = "''http://x/page.jpg''" and rest = "[]" and content = "''<html>''"
           and e = "Exn ''UnidentifiedImageError'' ''cannot identify image file''"]
      load_image_never_raises_none_on_failure
        [where w = demo_world and a = "PStr ''cars/none.jpg''" and s = "''cars/none.jpg''"]
      load_image_never_raises_none_on_failure
        [where w = demo_world and a = "PStr ''cars/notes.jpg''" and s = "''cars/notes.jpg''"
           and e = "Exn ''UnidentifiedImageError'' ''cannot identify image file''"]
      h g
    by simp
qed

text \<open>
  What \<open>is_valid_image_path\<close> returns for \<open>None\<close>, a string or a list: \<open>False\<close> for
  an empty input; for an HTTP(S) URL whether the HEAD request answered 200, and \<open>False\<close>
  when the request raised; for any other string whether the path exists.
\<close>

lemma is_valid_image_path_scalar_or_list:
  "(a \<in> {PNone, PStr [], PList []} \<longrightarrow> fst (is_valid_image_path w a) = Inr False)
   \<and> (s \<noteq> [] \<and> a \<in> {PStr s, PList (s # rest)} \<longrightarrow>
        (is_http_url s \<and> http_head w s (Some 5) = Inr status_code
           \<longrightarrow> fst (is_valid_image_path w a) = Inr (status_code = 200))
      \<and> (is_http_url s \<and> http_head w s (Some 5) = Inl e
           \<longrightarrow> fst (is_valid_image_path w a) = Inr False)
      \<and> (\<not> is_http_url s \<longrightarrow> fst (is_valid_image_path w a) = Inr (path_exists w s)))"
proof -
  have empty: "fst (is_valid_image_path w a) = Inr False" if "a \<in> {PNone, PStr [], PList []}"
    using that by (auto simp: is_valid_image_path_def truthy_def)
  have rest: "(is_http_url s \<and> http_head w s (Some 5) = Inr status_code
           \<longrightarrow> fst (is_valid_image_path w a) = Inr (status_code = 200))
      \<and> (is_http_url s \<and> http_head w s (Some 5) = Inl e
           \<longrightarrow> fst (is_valid_image_path w a) = Inr False)
      \<and> (\<not> is_http_url s \<longrightarrow> fst (is_valid_image_path w a) = Inr (path_exists w s))"
    if "s \<noteq> [] \<and> a \<in> {PStr s, PList (s # rest)}"
  proof -
    from that have "truthy a = Inr True" "first_as_str a = Some s"
      by (auto simp: truthy_def first_as_str_def)
    then show ?thesis by (simp add: is_valid_image_path_def)
  qed
  from empty rest show ?thesis by blast
qed

text \<open>
  C5. The claim has \<open>is_valid_image_path\<close> normalise a collection to its first element.
  For a NumPy array of two paths, a collection the function tests for by name, the truth
  test of line 213 raises ValueError before the normalisation of lines 216 to 219 is
  reached, although the first path exists.
\<close>

theorem is_valid_image_path_raises_on_array:
  "path_exists demo_world ''cars/swift.jpg''
   \<and> map_sum exn_class id
       (fst (is_valid_image_path demo_world (PArray ''cars/swift.jpg'' [''cars/notes.jpg''])))
     = Inl ''ValueError''"
  by (simp add: is_valid_image_path_def truthy_def demo_world_def)

text \<open>
  The two functions of the core module make at most one request each and pass the
  timeout: 5 seconds for HEAD, 10 seconds for GET.
\<close>

lemma core_requests_pass_timeouts:
  "snd (is_valid_image_path w a) = [] \<or> (\<exists>u. snd (is_valid_image_path w a) = [Head u (Some 5)])"
  "snd (load_image_from_url_or_path w a) = []
     \<or> (\<exists>u. snd (load_image_from_url_or_path w a) = [Get u (Some 10)])"
  by (auto simp: is_valid_image_path_def load_image_from_url_or_path_def load_image_try_def
      split: sum.splits option.splits prod.splits)

section \<open>Properties of the image indexer\<close>

text \<open>
  C7. The claim gives every GET of the application a timeout of 10 seconds, the image
  indexer's downloads included. The indexer's request for an HTTP path passes no
  timeout.
\<close>

theorem image_indexer_get_passes_no_timeout:
  "Net (Get ''http://x/a.jpg'' None)
     \<in> set (snd (snd (process_images_from_csv demo_world sound_store [http_image_row] new_table)))
   \<and> Net (Get ''http://x/a.jpg'' (Some 10))
     \<notin> set (snd (snd (process_images_from_csv demo_world sound_store [http_image_row] new_table)))"
  by (simp add: process_images_from_csv_def http_image_row_def csv_row_of_def demo_world_def
      strip_eval)

text \<open>
  C2. The claim has an HTTP image that fetches and decodes inserted like a local one. For
  a row whose only path is a reachable, well-formed JPEG on the web, the indexer fetches
  the bytes and then returns 0 with the table untouched.
\<close>

theorem http_image_fetched_but_not_inserted:
  "http_get demo_world ''http://x/a.jpg'' None = Inr (200, ''JPEG-bytes'')
   \<and> image_verify demo_world ''JPEG-bytes'' = None
   \<and> process_images_from_csv demo_world sound_store [http_image_row] new_table
       = (Inr 0, new_table, [Print LoadedCsv, Net (Get ''http://x/a.jpg'' None)])"
  by (simp add: process_images_from_csv_def http_image_row_def csv_row_of_def demo_world_def
      strip_eval)

text \<open>
  No path that starts with \<open>http\<close> ever adds a record, whatever the fetch returns.
\<close>

lemma image_paths_http_adds_nothing:
  "\<forall>p\<in>set ps. prefix ''http'' (strip p) \<Longrightarrow>
   fst (image_paths w car_model info ps image_data log) = image_data"
  by (induction ps arbitrary: log) (auto simp: Let_def split: sum.splits)

text \<open>
  Local paths behave as described: the text file named \<open>.jpg\<close> is skipped with a
  diagnostic, the batch goes on, and the JPEG next to it is verified and inserted.
\<close>

lemma local_images_verified_and_inserted:
  "process_images_from_csv demo_world sound_store [local_image_row] new_table =
     (Inr 1,
      \<lparr> tbl_rows = [\<lparr> img_label = ''Swift'', img_car_info = ''Compact city car'',
                      image_uri = ''cars/swift.jpg'', image_bytes = ''JPEG-bytes'' \<rparr>],
        tbl_vector_index = None,
        tbl_fts_index = Some [''label'', ''car_info''],
        tbl_calls = [Add 1, CreateFtsIndex [''label'', ''car_info''] True] \<rparr>,
      [Print LoadedCsv,
       Print (SkippingCorrupted ''cars/notes.jpg''
                (Exn ''UnidentifiedImageError'' ''cannot identify image file'')),
       Print (ProcessedImage ''cars/swift.jpg''),
       Print (AddingImages 1), Print CreatingFtsIndex])"
  by (simp add: process_images_from_csv_def local_image_row_def csv_row_of_def demo_world_def
      strip_eval Let_def sound_store_def new_table_def table_add_def create_fts_index_def)

section \<open>Properties of the text indexer\<close>

text \<open>
  C6. The claim has a row with an empty \<open>image_url\<close> field produce no record while the
  row with two URLs yields its record. A field that is empty in the CSV file reaches the
  loop as \<open>NaN\<close>; \<open>split\<close> raises on it outside any \<open>try\<close>, and the run ends with
  nothing added, the record of the two-URL row included.
\<close>

theorem empty_field_aborts_text_indexer:
  "process_data_from_csv sound_store [two_urls_row, empty_field_row] new_table
     = (Inl float_has_no_split, new_table, [LoadedCsv])"
  by (simp add: process_data_from_csv_def two_urls_row_def empty_field_row_def csv_row_of_def
      split_urls_def strip_eval)

text \<open>
  On string fields the splitting is as described: the field of the scenario gives the two
  trimmed URLs, and next to a row whose field holds only blanks and a comma exactly one
  record is collected.
\<close>

lemma two_urls_row_yields_one_record:
  "split_urls ''http://x/a.jpg, http://x/b.jpg'' = [''http://x/a.jpg'', ''http://x/b.jpg'']"
  "fst (text_rows [two_urls_row, blank_row] [] []) =
     Inr [\<lparr> label = ''Swift'', car_type = ''Hatchback'', fuel_type = ''Petrol'',
            car_info = ''Compact city car'',
            image_urls = [''http://x/a.jpg'', ''http://x/b.jpg''] \<rparr>]"
  by (simp_all add: two_urls_row_def blank_row_def csv_row_of_def split_urls_def strip_eval)

text \<open>
  When every row takes the \<open>continue\<close> of line 89, the loop collects nothing and prints
  one diagnostic per row.
\<close>

lemma text_rows_all_skipped:
  "\<forall>row\<in>set df. row_is_skipped row \<Longrightarrow>
   text_rows df processed_data msgs =
     (Inr processed_data, msgs @ map (\<lambda>row. NoValidUrls (csv_car_label row)) df)"
  by (induction df arbitrary: msgs) (auto simp: row_is_skipped_def split: cell.splits)

text \<open>
  When every row of the frame takes the \<open>continue\<close> of line 89, that is, its field is a
  string that yields no entry, \<open>process_data_from_csv\<close> returns 0 and the table is the
  one it was given: no row is appended and no call is made on it, so neither index is
  created or rebuilt. This holds for every store and every table.
\<close>

lemma all_rows_skipped_leaves_table_unchanged:
  assumes "\<forall>row\<in>set df. row_is_skipped row"
  shows "process_data_from_csv st df t =
           (Inr 0, t, LoadedCsv # map (\<lambda>row. NoValidUrls (csv_car_label row)) df)"
  using text_rows_all_skipped [OF assms, of "[]" "[LoadedCsv]"]
  by (simp add: process_data_from_csv_def)

text \<open>
  So it is for a frame of two rows whose field holds only blanks and a comma.
\<close>

lemma blank_rows_leave_table_unchanged:
  "row_is_skipped blank_row
   \<and> process_data_from_csv sound_store [blank_row, blank_row] new_table =
       (Inr 0, new_table, [LoadedCsv, NoValidUrls ''Alto'', NoValidUrls ''Alto''])"
proof -
  have h: "row_is_skipped blank_row"
    by (simp add: row_is_skipped_def blank_row_def csv_row_of_def split_urls_def strip_eval)
  have l: "csv_car_label blank_row = ''Alto''"
    by (simp add: blank_row_def csv_row_of_def)
  show ?thesis
    using all_rows_skipped_leaves_table_unchanged
      [where df = "[blank_row, blank_row]" and st = sound_store and t = new_table] h l
    by simp
qed

text \<open>
  The frame part holds as well when some rows have an empty field: a run in which no row
  yields a URL, whether it returns or raises, leaves the table as it was.
\<close>

lemma text_rows_nothing_collected:
  "\<forall>row\<in>set df. row_is_skipped row \<or> csv_image_url row = NaN \<Longrightarrow>
   fst (text_rows df processed_data msgs) = Inr processed_data
   \<or> fst (text_rows df processed_data msgs) = Inl float_has_no_split"
  by (induction df arbitrary: msgs) (auto simp: row_is_skipped_def split: cell.splits)

lemma no_valid_row_leaves_table_unchanged:
  assumes "\<forall>row\<in>set df. row_is_skipped row \<or> csv_image_url row = NaN"
  shows "fst (snd (process_data_from_csv st df t)) = t"
  using text_rows_nothing_collected [OF assms, of "[]" "[LoadedCsv]"]
  by (cases "text_rows df [] [LoadedCsv]") (auto simp: process_data_from_csv_def)

text \<open>
  C9. The claim has \<open>process_data_from_csv\<close> return 0 and leave the table unchanged
  whenever no row yields a valid image URL. In a CSV file whose \<open>image_url\<close> fields are
  all empty no row yields one; the fields reach the loop as \<open>NaN\<close>, \<open>split\<close> raises
  at the first row, and the function ends with AttributeError instead of returning 0.
  The table is left as it was. It is the defect shown for C6.
\<close>

theorem empty_fields_raise_instead_of_returning_zero:
  "process_data_from_csv sound_store [empty_field_row, empty_field_row] new_table
     = (Inl float_has_no_split, new_table, [LoadedCsv])
   \<and> fst (process_data_from_csv sound_store [empty_field_row, empty_field_row] new_table)
       \<noteq> Inr 0"
  by (simp add: process_data_from_csv_def empty_field_row_def csv_row_of_def)

section \<open>Properties of the upload validation\<close>

text \<open>
  C8. An upload that opens and verifies as JPEG or PNG and is larger than
  \<open>5 * 1024 * 1024\<close> bytes is rejected by \<open>validate_image\<close> with the size-limit
  message; in the image tab the message is shown, the upload is neither saved nor
  searched with, and no call is made on the store, whichever button was pressed and
  whatever the session held.
\<close>

theorem oversized_upload_rejected_before_store:
  assumes "up_open f = Inr img" "up_verify f = None" "up_seek f = None"
    and "lower (img_format img) \<in> {''jpeg'', ''jpg'', ''png''}"
    and "up_size f = Inr n" "n > 5 * 1024 * 1024"
  shows "validate_image f = Inr (False, Some too_large_message)
       \<and> image_tab w image_table save (Some f) click_search click_reset sess =
           (Inr (), (if click_reset then sess\<lparr>temp_image_path := None\<rparr> else sess),
            [StError (Some too_large_message)], [])"
proof -
  have v: "validate_image f = Inr (False, Some too_large_message)"
    using assms by (simp add: validate_image_def validate_image_try_def)
  then have "upload_step save (Some f) sess = (Inr False, sess, [StError (Some too_large_message)])"
    by (simp add: upload_step_def)
  then have "image_tab w image_table save (Some f) click_search click_reset sess =
           (Inr (), (if click_reset then sess\<lparr>temp_image_path := None\<rparr> else sess),
            [StError (Some too_large_message)], [])"
    by (simp add: image_tab_def split: option.splits)
  with v show ?thesis by simp
qed

text \<open>
  C8 at a PNG of 6 MB, with the search button pressed and the path of an earlier upload
  still in the session.
\<close>

theorem oversized_upload_rejected_before_store_witness:
  "validate_image six_mb_png = Inr (False, Some too_large_message)
   \<and> image_tab demo_world (\<lambda>img limit. Inr []) (\<lambda>f. Inr ''temp/temp_image.jpg'')
       (Some six_mb_png) True False earlier_session =
       (Inr (), earlier_session, [StError (Some too_large_message)], [])"
proof -
  have h: "up_open six_mb_png = Inr (PilImage ''PNG'')" "up_verify six_mb_png = None"
    "up_seek six_mb_png = None" "up_size six_mb_png = Inr (6 * 1024 * 1024)"
    by (simp_all add: six_mb_png_def)
  have l: "lower (img_format (PilImage ''PNG'')) \<in> {''jpeg'', ''jpg'', ''png''}"
    by code_simp
  have n: "(6 * 1024 * 1024 :: nat) > 5 * 1024 * 1024" by simp
  show ?thesis
    using oversized_upload_rejected_before_store [OF h(1) h(2) h(3) l h(4) n,
        where w = demo_world and image_table = "\<lambda>img limit. Inr []"
          and save = "\<lambda>f. Inr ''temp/temp_image.jpg''" and click_search = True
          and click_reset = False and sess = earlier_session]
    by simp
qed

text \<open>
  C10. \<open>validate_image\<close> always returns a pair and lets no exception out. When the file
  does not open as an image, or opens and does not verify, the pair is \<open>False\<close> with
  the "Invalid image file" message; when it opens, verifies and rewinds, and its format
  is none of jpeg, jpg, png, the pair is \<open>False\<close> with the unsupported-format
  message.
\<close>

theorem validate_image_total:
  "(\<exists>is_valid error_message. validate_image f = Inr (is_valid, error_message))
   \<and> (up_open f = Inl e \<longrightarrow> validate_image f = Inr (False, Some (invalid_image_message e)))
   \<and> (up_open f = Inr img \<and> up_verify f = Some e
        \<longrightarrow> validate_image f = Inr (False, Some (invalid_image_message e)))
   \<and> (up_open f = Inr img \<and> up_verify f = None \<and> up_seek f = None
        \<and> lower (img_format img) \<notin> {''jpeg'', ''jpg'', ''png''}
        \<longrightarrow> validate_image f = Inr (False, Some (unsupported_format_message (img_format img))))"
proof -
  have total: "\<exists>is_valid error_message. validate_image f = Inr (is_valid, error_message)"
    by (cases "validate_image_try f") (auto simp: validate_image_def)
  moreover have "validate_image f = Inr (False, Some (invalid_image_message e))"
    if "up_open f = Inl e"
    using that by (simp add: validate_image_def validate_image_try_def)
  moreover have "validate_image f = Inr (False, Some (invalid_image_message e))"
    if "up_open f = Inr img \<and> up_verify f = Some e"
    using that by (simp add: validate_image_def validate_image_try_def)
  moreover have "validate_image f = Inr (False, Some (unsupported_format_message (img_format img)))"
    if "up_open f = Inr img \<and> up_verify f = None \<and> up_seek f = None
        \<and> lower (img_format img) \<notin> {''jpeg'', ''jpg'', ''png''}"
    using that by (simp add: validate_image_def validate_image_try_def)
  ultimately show ?thesis by blast
qed

text \<open>
  C10 at a text file, a truncated PNG and a GIF.
\<close>

theorem validate_image_total_witness:
  "validate_image text_file_upload =
     Inr (False, Some ''Invalid image file: cannot identify image file'')
   \<and> validate_image truncated_png_upload = Inr (False, Some ''Invalid image file: broken PNG file'')
   \<and> validate_image gif_upload =
       Inr (False, Some ''Unsupported image format: GIF. Please upload JPEG or PNG images only.'')"
proof -
  have t: "up_open text_file_upload
             = Inl (Exn ''UnidentifiedImageError'' ''cannot identify image file'')"
    by (simp add: text_file_upload_def)
  have p: "up_open truncated_png_upload = Inr (PilImage ''PNG'')
           \<and> up_verify truncated_png_upload = Some (Exn ''SyntaxError'' ''broken PNG file'')"
    by (simp add: truncated_png_upload_def)
  have g: "up_open gif_upload = Inr (PilImage ''GIF'') \<and> up_verify gif_upload = None
           \<and> up_seek gif_upload = None
           \<and> lower (img_format (PilImage ''GIF'')) \<notin> {''jpeg'', ''jpg'', ''png''}"
    by code_simp
  show ?thesis
    using
      validate_image_total [where f = text_file_upload
        and e = "Exn ''UnidentifiedImageError'' ''cannot identify image file''"]
      validate_image_total [where f = truncated_png_upload and img = "PilImage ''PNG''"
        and e = "Exn ''SyntaxError'' ''broken PNG file''"]
      validate_image_total [where f = gif_upload and img = "PilImage ''GIF''"]
      t p g
    by (simp add: invalid_image_message_def unsupported_format_message_def)
qed

end
